theory Spec2Isabelle
  imports Main
begin

section \<open>Errors\<close>

text \<open>
  Every failure of the modelled code is a value. \<open>ufl_assert\<close> and \<open>error\<close> raise the
  library's exception with a message; the constructors below name the assertion that
  failed, following the error kinds of the design document:
  \<^item> \<open>MissingDomainError\<close>: an assertion \<open>domain is not None\<close> failed;
  \<^item> \<open>KeyError\<close>: a dictionary was indexed with an absent key
    (\<open>domain2dim[domain]\<close>, \<open>fid[i]\<close>);
  \<^item> \<open>RankError\<close>: \<open>f.rank() >= 1\<close> (Div) or \<open>f.rank() == 1\<close> (Curl, Rot) failed;
  \<^item> \<open>FreeIndexError\<close>: \<open>not f.free_indices()\<close> failed in Grad, Div, Curl or Rot;
  \<^item> \<open>IndexArityError\<close>: \<open>extract_indices\<close> rejected its index list;
  \<^item> \<open>RepeatedIndexError\<close>: "Repeated indices not allowed in VariableDerivative.";
  \<^item> \<open>ExpectingVariable\<close>: "Expecting a Variable in VariableDerivative.";
  \<^item> \<open>NameError\<close>: a name that the module never binds was called;
  \<^item> \<open>UnsupportedSubstitutionTarget\<close>: "This implementation can only replace Terminal
    objects.";
  \<^item> \<open>ShapeMismatch\<close>: "Replacement expressions must have the same shape as what they
    replace.";
  \<^item> \<open>UnexpandedDerivativeError\<close>: "Derivatives should be applied before executing
    replace.";
  \<^item> \<open>ExpectingElement\<close>: "Expecting a FiniteElementBase instance.";
  \<^item> \<open>CollaboratorError\<close>: a failure raised inside a collaborator that is passed in as a
    parameter (derivative expansion, node reconstruction).
\<close>

datatype error =
    MissingDomainError
  | KeyError
  | RankError
  | FreeIndexError
  | IndexArityError
  | RepeatedIndexError
  | ExpectingVariable
  | NameError
  | UnsupportedSubstitutionTarget
  | ShapeMismatch
  | UnexpandedDerivativeError
  | ExpectingElement
  | CollaboratorError

section \<open>Operands of the differentiation operators (differentiation.py)\<close>

text \<open>
  An entry of an index tuple is an \<open>Index\<close> token (named by its count) or a fixed
  integer. \<open>is_Index i\<close> is \<open>isinstance(i, Index)\<close>.
\<close>

datatype index = is_Index: Index nat | FixedIndex nat

text \<open>
  The classes the operators test their operand against with \<open>isinstance\<close>. The
  ordinary field coefficient is \<open>Coefficient\<close> in coefficient.py (differentiation.py
  imports it under its older name \<open>Function\<close>); \<open>Constant\<close>, \<open>VectorConstant\<close> and
  \<open>TensorConstant\<close> are its subclasses through \<open>ConstantBase\<close>. \<open>OtherTerminal\<close> and
  \<open>OtherExpr\<close> stand for every terminal and every compound class that the operators
  never name.
\<close>

datatype ufl_class =
    ScalarValue_cls
  | Zero_cls
  | Identity_cls
  | Constant_cls
  | VectorConstant_cls
  | TensorConstant_cls
  | Coefficient_cls
  | Argument_cls
  | OtherTerminal_cls
  | Variable_cls
  | Indexed_cls
  | OtherExpr_cls

text \<open>
  Modelled from the spec: \<open>isinstance(x, Terminal)\<close>. The class hierarchy lives in
  base.py, which is not among the files; section 3 of the design lists the terminal
  variants (argument, coefficient, the constant family, zero, identity, scalar literal).
  The answer on \<open>Variable_cls\<close> is never observed: the only test that could see it,
  in \<open>VariableDerivative.__new__\<close>, excludes a Variable first.
\<close>

fun is_Terminal :: "ufl_class \<Rightarrow> bool" where
  "is_Terminal Variable_cls = False"
| "is_Terminal Indexed_cls = False"
| "is_Terminal OtherExpr_cls = False"
| "is_Terminal _ = True"

text \<open>
  An operand, as the operators see it: its class and what its methods \<open>shape()\<close>,
  \<open>free_indices()\<close>, \<open>index_dimensions()\<close> and \<open>domain()\<close> return (those methods
  belong to classes outside the files, so their results are taken as given). For an
  \<open>Indexed\<close> operand \<open>expression_cls\<close> is the class of its \<open>_expression\<close> attribute.
\<close>

record expr =
  cls :: ufl_class
  shape :: "nat list"
  free_indices :: "index list"
  index_dimensions :: "index \<rightharpoonup> nat"
  domain :: "string option"
  expression_cls :: "ufl_class option"

definition rank :: "expr \<Rightarrow> nat" where
  \<comment> \<open>\<open>Expr.rank()\<close>: the length of the shape\<close>
  "rank f = length (shape f)"

definition spatially_constant_types :: "ufl_class list" where
  "spatially_constant_types =
     [ScalarValue_cls, Zero_cls, Identity_cls, Constant_cls, VectorConstant_cls, TensorConstant_cls]"

section \<open>Index algebra\<close>

text \<open>
  Modelled from the spec: \<open>extract_indices\<close> of indexing.py, which is not among the
  files (design section 4.1). Fixed integers are ignored. The Index tokens are split into
  those occurring exactly once (free, in the order of their occurrence) and exactly twice
  (repeated). It fails when a token occurs more than twice, or when two occurrences of
  one token are recorded with different dimensions. \<open>additional_shape\<close> lists the
  dimensions of the free indices in order, \<open>index_dimensions\<close> maps every token to its
  dimension. The dimension list is optional, as in the call
  \<open>extract_indices(self._indices._indices)\<close>; without it no dimension is recorded.
\<close>

definition extract_indices ::
  "index list \<Rightarrow> nat list option \<Rightarrow>
     error + (index list \<times> index list \<times> nat list \<times> (index \<rightharpoonup> nat))" where
  "extract_indices index_list dimension_list =
     (let tokens = filter is_Index index_list;
          entries = (case dimension_list of
                       None \<Rightarrow> []
                     | Some dims \<Rightarrow> filter (\<lambda>(i, d). is_Index i) (zip index_list dims))
      in if \<exists>i \<in> set tokens. 2 < count_list tokens i then Inl IndexArityError
         else if \<exists>(i, d) \<in> set entries. map_of entries i \<noteq> Some d then Inl IndexArityError
         else Inr (filter (\<lambda>i. count_list tokens i = 1) tokens,
                   remdups (filter (\<lambda>i. count_list tokens i = 2) tokens),
                   map snd (filter (\<lambda>(i, d). count_list tokens i = 1) entries),
                   map_of entries))"

section \<open>The nodes built by differentiation.py\<close>

text \<open>The slots that \<open>SpatialDerivative.__init__\<close> fills.\<close>

record SpatialDerivative_slots =
  sd_expression :: expr
  sd_indices :: "index list"
  sd_dx_free_indices :: "index list"
  sd_dx_repeated_indices :: "index list"
  sd_free_indices :: "index list"
  sd_repeated_indices :: "index list"
  sd_shape :: "nat list"
  sd_index_dimensions :: "index \<rightharpoonup> nat"

text \<open>The slots that \<open>VariableDerivative.__init__\<close> fills.\<close>

record VariableDerivative_slots =
  vd_f :: expr
  vd_v :: expr
  vd_free_indices :: "index list"
  vd_index_dimensions :: "index \<rightharpoonup> nat"
  vd_shape :: "nat list"

text \<open>
  What a constructor call returns: the literal \<open>Zero(shape)\<close> of a short-circuit, or an
  instance of the class with its slots (\<open>GradNode f dim\<close> holds \<open>_f\<close> and \<open>_dim\<close>).
\<close>

datatype node =
    Zero "nat list"
  | SpatialDerivativeNode SpatialDerivative_slots
  | VariableDerivativeNode VariableDerivative_slots
  | GradNode expr nat
  | DivNode expr
  | CurlNode expr nat
  | RotNode expr

text \<open>The methods \<open>shape()\<close>, \<open>free_indices()\<close> and \<open>index_dimensions()\<close> of each class.\<close>

fun node_shape :: "node \<Rightarrow> nat list" where
  "node_shape (Zero s) = s"
| "node_shape (SpatialDerivativeNode n) = sd_shape n"
| "node_shape (VariableDerivativeNode n) = vd_shape n"
| "node_shape (GradNode f dim) = dim # shape f"
| "node_shape (DivNode f) = drop 1 (shape f)"
| "node_shape (CurlNode f dim) = [dim]"
| "node_shape (RotNode f) = []"

fun node_free_indices :: "node \<Rightarrow> index list" where
  "node_free_indices (Zero s) = []"
| "node_free_indices (SpatialDerivativeNode n) = sd_free_indices n"
| "node_free_indices (VariableDerivativeNode n) = vd_free_indices n"
| "node_free_indices (GradNode f dim) = free_indices f"
| "node_free_indices (DivNode f) = free_indices f"
| "node_free_indices (CurlNode f dim) = free_indices f"
| "node_free_indices (RotNode f) = free_indices f"

fun node_index_dimensions :: "node \<Rightarrow> (index \<rightharpoonup> nat)" where
  "node_index_dimensions (Zero s) = Map.empty"
| "node_index_dimensions (SpatialDerivativeNode n) = sd_index_dimensions n"
| "node_index_dimensions (VariableDerivativeNode n) = vd_index_dimensions n"
| "node_index_dimensions (GradNode f dim) = index_dimensions f"
| "node_index_dimensions (DivNode f) = index_dimensions f"
| "node_index_dimensions (CurlNode f dim) = index_dimensions f"
| "node_index_dimensions (RotNode f) = index_dimensions f"

text \<open>
  A call \<open>C(args)\<close> runs \<open>C.__new__\<close>; \<open>C.__init__\<close> runs only when \<open>__new__\<close>
  returned an instance of \<open>C\<close>. \<open>Inr (Some z)\<close> is a \<open>__new__\<close> that returned the
  literal zero \<open>z\<close> (so \<open>__init__\<close> is skipped), \<open>Inr None\<close> one that allocated a fresh
  instance through \<open>Expr.__new__(cls)\<close>.
\<close>

definition construct :: "error + node option \<Rightarrow> error + node \<Rightarrow> error + node" where
  "construct new init =
     (case new of
        Inl e \<Rightarrow> Inl e
      | Inr (Some z) \<Rightarrow> Inr z
      | Inr None \<Rightarrow> init)"

section \<open>SpatialDerivative\<close>

definition SpatialDerivative_new :: "expr \<Rightarrow> index list \<Rightarrow> error + node option" where
  "SpatialDerivative_new expression indices =
     (if is_Terminal (cls expression) then
        (let ind = filter is_Index indices;
             si = set ind
         in if length ind = 2 * card si \<and> cls expression \<in> set spatially_constant_types
            then Inr (Some (Zero (shape expression)))
            else Inr None)
      else Inr None)"

text \<open>
  \<open>domain2dim\<close> is the table of common.py (not among the files), taken as a parameter.
  \<open>MultiIndex(indices, len(indices))\<close> wraps the tuple, which is read back as
  \<open>self._indices._indices\<close>. The dictionary that the loop over \<open>_dx_free_indices\<close>
  fills is overwritten by the last assignment of \<open>__init__\<close> before anything reads it,
  so only that last assignment appears here. The dimensions \<open>fid[i]\<close> are looked up
  for every free index of the operand; an index without one is a KeyError.
\<close>

definition SpatialDerivative_init ::
  "(string \<rightharpoonup> nat) \<Rightarrow> expr \<Rightarrow> index list \<Rightarrow> error + node" where
  "SpatialDerivative_init domain2dim expression indices =
     (case extract_indices indices None of
        Inl e \<Rightarrow> Inl e
      | Inr (dx_free_indices, dx_repeated_indices, dummy, dummy') \<Rightarrow>
     (case domain expression of
        None \<Rightarrow> Inl MissingDomainError
      | Some d \<Rightarrow>
     (case domain2dim d of
        None \<Rightarrow> Inl KeyError
      | Some dim \<Rightarrow>
     (let fi = free_indices expression;
          fid = index_dimensions expression
      in
     (case those (map fid fi) of
        None \<Rightarrow> Inl KeyError
      | Some fdims \<Rightarrow>
     (case extract_indices (fi @ dx_free_indices)
             (Some (fdims @ replicate (length dx_free_indices) dim)) of
        Inl e \<Rightarrow> Inl e
      | Inr (free, repeated, shp, dims) \<Rightarrow>
          Inr (SpatialDerivativeNode
            \<lparr>sd_expression = expression,
             sd_indices = indices,
             sd_dx_free_indices = dx_free_indices,
             sd_dx_repeated_indices = dx_repeated_indices,
             sd_free_indices = free,
             sd_repeated_indices = repeated,
             sd_shape = shp,
             sd_index_dimensions = dims\<rparr>)))))))"

definition SpatialDerivative ::
  "(string \<rightharpoonup> nat) \<Rightarrow> expr \<Rightarrow> index list \<Rightarrow> error + node" where
  "SpatialDerivative domain2dim expression indices =
     construct (SpatialDerivative_new expression indices)
               (SpatialDerivative_init domain2dim expression indices)"

section \<open>VariableDerivative\<close>

definition symmetric_difference :: "'a set \<Rightarrow> 'a set \<Rightarrow> 'a set" where
  \<comment> \<open>Python's \<open>A ^ B\<close> on sets\<close>
  "symmetric_difference A B = (A - B) \<union> (B - A)"

definition VariableDerivative_new :: "expr \<Rightarrow> expr \<Rightarrow> error + node option" where
  "VariableDerivative_new f v =
     (if cls f \<noteq> Variable_cls \<and> is_Terminal (cls f) then
        (let free = symmetric_difference (set (free_indices f)) (set (free_indices v))
         in if free = {} then Inr (Some (Zero (shape f))) else Inr None)
      else Inr None)"

text \<open>
  \<open>isinstance(f, Expr)\<close> holds of every operand of type \<open>expr\<close>. In the \<open>Indexed\<close>
  branch the module calls \<open>ufl_warning\<close>, a name it never imports (line 8 imports
  \<open>ufl_assert\<close> only), so that branch ends in a NameError once its assertion passed.
\<close>

definition VariableDerivative_init :: "expr \<Rightarrow> expr \<Rightarrow> error + node" where
  "VariableDerivative_init f v =
     (if cls v = Indexed_cls then
        (if expression_cls v \<noteq> Some Variable_cls then Inl ExpectingVariable
         else Inl NameError)
      else if cls v \<noteq> Variable_cls then Inl ExpectingVariable
      else
        (let fi = free_indices f;
             vi = free_indices v;
             fid = index_dimensions f;
             vid = index_dimensions v
         in if symmetric_difference (set fi) (set vi) \<noteq> {} then Inl RepeatedIndexError
            else Inr (VariableDerivativeNode
              \<lparr>vd_f = f,
               vd_v = v,
               vd_free_indices = fi @ vi,
               vd_index_dimensions = fid ++ vid,
               vd_shape = shape f @ shape v\<rparr>)))"

definition VariableDerivative :: "expr \<Rightarrow> expr \<Rightarrow> error + node" where
  "VariableDerivative f v =
     construct (VariableDerivative_new f v) (VariableDerivative_init f v)"

section \<open>Grad, Div, Curl, Rot\<close>

definition Grad_new :: "(string \<rightharpoonup> nat) \<Rightarrow> expr \<Rightarrow> error + node option" where
  "Grad_new domain2dim f =
     (if cls f \<in> set spatially_constant_types then
        (case domain f of
           None \<Rightarrow> Inl MissingDomainError
         | Some d \<Rightarrow>
        (case domain2dim d of
           None \<Rightarrow> Inl KeyError
         | Some dim \<Rightarrow> Inr (Some (Zero (dim # shape f)))))
      else Inr None)"

definition Grad_init :: "(string \<rightharpoonup> nat) \<Rightarrow> expr \<Rightarrow> error + node" where
  "Grad_init domain2dim f =
     (case domain f of
        None \<Rightarrow> Inl MissingDomainError
      | Some d \<Rightarrow>
     (case domain2dim d of
        None \<Rightarrow> Inl KeyError
      | Some dim \<Rightarrow>
          if free_indices f \<noteq> [] then Inl FreeIndexError
          else Inr (GradNode f dim)))"

definition Grad :: "(string \<rightharpoonup> nat) \<Rightarrow> expr \<Rightarrow> error + node" where
  "Grad domain2dim f = construct (Grad_new domain2dim f) (Grad_init domain2dim f)"

definition Div_new :: "expr \<Rightarrow> error + node option" where
  "Div_new f =
     (if cls f \<in> set spatially_constant_types then Inr (Some (Zero (drop 1 (shape f))))
      else Inr None)"

definition Div_init :: "expr \<Rightarrow> error + node" where
  "Div_init f =
     (if \<not> 1 \<le> rank f then Inl RankError
      else if free_indices f \<noteq> [] then Inl FreeIndexError
      else Inr (DivNode f))"

definition Div :: "expr \<Rightarrow> error + node" where
  "Div f = construct (Div_new f) (Div_init f)"

text \<open>\<open>Curl\<close> and \<open>Rot\<close> define no \<open>__new__\<close>: the call always reaches \<open>__init__\<close>.\<close>

definition Curl_init :: "(string \<rightharpoonup> nat) \<Rightarrow> expr \<Rightarrow> error + node" where
  "Curl_init domain2dim f =
     (if rank f \<noteq> 1 then Inl RankError
      else if free_indices f \<noteq> [] then Inl FreeIndexError
      else
     (case domain f of
        None \<Rightarrow> Inl MissingDomainError
      | Some d \<Rightarrow>
     (case domain2dim d of
        None \<Rightarrow> Inl KeyError
      | Some dim \<Rightarrow> Inr (CurlNode f dim))))"

definition Curl :: "(string \<rightharpoonup> nat) \<Rightarrow> expr \<Rightarrow> error + node" where
  "Curl domain2dim f = construct (Inr None) (Curl_init domain2dim f)"

definition Rot_init :: "expr \<Rightarrow> error + node" where
  "Rot_init f =
     (if rank f \<noteq> 1 then Inl RankError
      else if free_indices f \<noteq> [] then Inl FreeIndexError
      else Inr (RotNode f))"

definition Rot :: "expr \<Rightarrow> error + node" where
  "Rot f = construct (Inr None) (Rot_init f)"

section \<open>Expressions of the replace algorithm (algorithms/replace.py)\<close>

text \<open>
  Modelled from the spec: the expression graph that \<open>replace\<close> walks (design section 3);
  the node classes are not among the files. A node is a terminal, with its canonical
  \<open>repr\<close> string and its \<open>ufl_shape\<close>; an operator, with the name of its class, its
  \<open>ufl_shape\<close> and its operands; or the not yet expanded coefficient-derivative marker.
  Equality of nodes is structural, and it is the key of dictionaries and of the memo.
\<close>

datatype ufl_expr =
    Terminal string "nat list"
  | Operator string "nat list" "ufl_expr list"
  | CoefficientDerivative "nat list" "ufl_expr list"

fun ufl_is_terminal :: "ufl_expr \<Rightarrow> bool" where
  "ufl_is_terminal (Terminal r s) = True"
| "ufl_is_terminal (Operator c s ops) = False"
| "ufl_is_terminal (CoefficientDerivative s ops) = False"

fun ufl_shape :: "ufl_expr \<Rightarrow> nat list" where
  "ufl_shape (Terminal r s) = s"
| "ufl_shape (Operator c s ops) = s"
| "ufl_shape (CoefficientDerivative s ops) = s"

fun ufl_operands :: "ufl_expr \<Rightarrow> ufl_expr list" where
  "ufl_operands (Terminal r s) = []"
| "ufl_operands (Operator c s ops) = ops"
| "ufl_operands (CoefficientDerivative s ops) = ops"

text \<open>
  Modelled from the spec: \<open>has_exact_type(e, CoefficientDerivative)\<close> of
  algorithms/analysis.py, which is not among the files: whether the expression contains
  a not yet expanded coefficient-derivative marker (design section 4.4).
\<close>

fun has_exact_type_CoefficientDerivative :: "ufl_expr \<Rightarrow> bool" where
  "has_exact_type_CoefficientDerivative (Terminal r s) = False"
| "has_exact_type_CoefficientDerivative (Operator c s ops) =
     list_ex has_exact_type_CoefficientDerivative ops"
| "has_exact_type_CoefficientDerivative (CoefficientDerivative s ops) = True"

text \<open>
  Modelled from the spec: \<open>as_ufl\<close> of constantvalue.py, which is not among the files.
  The values of a replacement mapping are expressions (design section 4.4), and the
  conversion returns an expression as it is.
\<close>

definition as_ufl :: "ufl_expr \<Rightarrow> ufl_expr" where
  "as_ufl v = v"

section \<open>The dispatch and traversal engine\<close>

text \<open>
  A visitor: what to do per node variant. \<open>terminal\<close> and \<open>coefficient_derivative\<close> get
  the node alone; \<open>expr\<close>, the rule of every other operator, gets the node and its
  already transformed operands.
\<close>

record multifunction =
  terminal :: "ufl_expr \<Rightarrow> error + ufl_expr"
  coefficient_derivative :: "ufl_expr \<Rightarrow> error + ufl_expr"
  expr :: "ufl_expr \<Rightarrow> ufl_expr list \<Rightarrow> error + ufl_expr"

text \<open>
  Modelled from the spec: \<open>MultiFunction.reuse_if_untouched\<close> of
  corealg/multifunction.py, which is not among the files (design section 4.3): when the
  transformed operands are the original ones the original node is returned; only
  otherwise is the node rebuilt by its smart constructor. That constructor,
  \<open>reconstruct\<close>, is a parameter; it may reject the new operands.
\<close>

definition reuse_if_untouched ::
  "(ufl_expr \<Rightarrow> ufl_expr list \<Rightarrow> error + ufl_expr) \<Rightarrow>
     ufl_expr \<Rightarrow> ufl_expr list \<Rightarrow> error + ufl_expr" where
  "reuse_if_untouched reconstruct e ops =
     (if ops = ufl_operands e then Inr e else reconstruct e ops)"

text \<open>
  The state of one traversal: the memo, from each node already transformed to its result,
  and the nodes handed to a handler of the visitor so far, in order (what a counting
  visitor would observe).
\<close>

record traversal =
  memo :: "(ufl_expr \<times> ufl_expr) list"
  visited :: "ufl_expr list"

definition handled ::
  "ufl_expr \<Rightarrow> error + ufl_expr \<Rightarrow> traversal \<Rightarrow> (error + ufl_expr) \<times> traversal" where
  \<comment> \<open>a handler was run on \<open>e\<close> and gave \<open>r\<close>: log the visit, memoize a result\<close>
  "handled e r st =
     (r, \<lparr>memo = (case r of Inl err \<Rightarrow> memo st | Inr v \<Rightarrow> (e, v) # memo st),
          visited = visited st @ [e]\<rparr>)"

text \<open>
  Modelled from the spec: \<open>map_expr_dag\<close> of corealg/map_dag.py, which is not among the
  files (design section 4.3). The traversal is post-order and memoized per pass: a node
  met again is answered from the memo, so each distinct node is transformed at most
  once. A terminal and the marker go to their handler; any other operator has its
  operands transformed first, left to right, and then goes to \<open>expr\<close>. The first error
  ends the traversal.
\<close>

fun map_expr_dag ::
  "multifunction \<Rightarrow> ufl_expr \<Rightarrow> traversal \<Rightarrow> (error + ufl_expr) \<times> traversal"
and map_operands ::
  "multifunction \<Rightarrow> ufl_expr list \<Rightarrow> traversal \<Rightarrow> (error + ufl_expr list) \<times> traversal"
where
  "map_expr_dag f (Terminal r s) st =
     (case map_of (memo st) (Terminal r s) of
        Some v \<Rightarrow> (Inr v, st)
      | None \<Rightarrow> handled (Terminal r s) (terminal f (Terminal r s)) st)"
| "map_expr_dag f (CoefficientDerivative s ops) st =
     (case map_of (memo st) (CoefficientDerivative s ops) of
        Some v \<Rightarrow> (Inr v, st)
      | None \<Rightarrow> handled (CoefficientDerivative s ops)
                 (coefficient_derivative f (CoefficientDerivative s ops)) st)"
| "map_expr_dag f (Operator c s ops) st =
     (case map_of (memo st) (Operator c s ops) of
        Some v \<Rightarrow> (Inr v, st)
      | None \<Rightarrow>
         (case map_operands f ops st of
            (Inl err, st') \<Rightarrow> (Inl err, st')
          | (Inr ops', st') \<Rightarrow>
              handled (Operator c s ops) (expr f (Operator c s ops) ops') st'))"
| "map_operands f [] st = (Inr [], st)"
| "map_operands f (x # xs) st =
     (case map_expr_dag f x st of
        (Inl err, st') \<Rightarrow> (Inl err, st')
      | (Inr x', st') \<Rightarrow>
         (case map_operands f xs st' of
            (Inl err, st'') \<Rightarrow> (Inl err, st'')
          | (Inr xs', st'') \<Rightarrow> (Inr (x' # xs'), st'')))"

text \<open>
  Modelled from the spec: \<open>map_integrand_dags\<close> of algorithms/map_integrands.py, which
  is not among the files, on an expression: one traversal with a fresh memo. Besides the
  result it gives the log of visits, so that "no traversal occurred" can be stated.
\<close>

definition map_integrand_dags ::
  "multifunction \<Rightarrow> ufl_expr \<Rightarrow> (error + ufl_expr) \<times> ufl_expr list" where
  "map_integrand_dags f e =
     (case map_expr_dag f e \<lparr>memo = [], visited = []\<rparr> of (r, st) \<Rightarrow> (r, visited st))"

section \<open>Replacer and replace\<close>

text \<open>
  A mapping is a dictionary, held as the list of its items; \<open>mapping.get(o)\<close> is
  \<open>map_of mapping o\<close>.
\<close>

definition Replacer_terminal :: "(ufl_expr \<times> ufl_expr) list \<Rightarrow> ufl_expr \<Rightarrow> error + ufl_expr" where
  "Replacer_terminal mapping e =
     (case map_of mapping e of
        None \<Rightarrow> Inr e
      | Some e' \<Rightarrow> Inr e')"

definition Replacer_coefficient_derivative :: "ufl_expr \<Rightarrow> error + ufl_expr" where
  "Replacer_coefficient_derivative e = Inl UnexpandedDerivativeError"

text \<open>\<open>Replacer.__init__\<close>: the two checks, then the visitor with its three handlers.\<close>

definition Replacer ::
  "(ufl_expr \<Rightarrow> ufl_expr list \<Rightarrow> error + ufl_expr) \<Rightarrow>
     (ufl_expr \<times> ufl_expr) list \<Rightarrow> error + multifunction" where
  "Replacer reconstruct mapping =
     (if \<not> list_all (\<lambda>(k, v). ufl_is_terminal k) mapping
      then Inl UnsupportedSubstitutionTarget
      else if \<not> list_all (\<lambda>(k, v). ufl_shape k = ufl_shape v) mapping
      then Inl ShapeMismatch
      else Inr \<lparr>terminal = Replacer_terminal mapping,
                coefficient_derivative = Replacer_coefficient_derivative,
                expr = reuse_if_untouched reconstruct\<rparr>)"

text \<open>
  \<open>replace(e, mapping)\<close> for an expression \<open>e\<close>. \<open>expand_derivatives\<close> of
  algorithms/ad.py is an external collaborator and a parameter here; it may fail. The
  statements run in the source's order: the values are converted, a marker is looked for
  and, if one is found, expanded, the Replacer is built (and validates the mapping), and
  only then the traversal starts.
\<close>

definition replace ::
  "(ufl_expr \<Rightarrow> error + ufl_expr) \<Rightarrow> (ufl_expr \<Rightarrow> ufl_expr list \<Rightarrow> error + ufl_expr) \<Rightarrow>
     ufl_expr \<Rightarrow> (ufl_expr \<times> ufl_expr) list \<Rightarrow> (error + ufl_expr) \<times> ufl_expr list" where
  "replace expand_derivatives reconstruct e mapping =
     (let mapping2 = map (\<lambda>(k, v). (k, as_ufl v)) mapping
      in case (if has_exact_type_CoefficientDerivative e then expand_derivatives e
               else Inr e) of
           Inl err \<Rightarrow> (Inl err, [])
         | Inr e' \<Rightarrow>
             (case Replacer reconstruct mapping2 of
                Inl err \<Rightarrow> (Inl err, [])
              | Inr f \<Rightarrow> map_integrand_dags f e'))"

text \<open>
  The invariant of a traversal that substitutes nothing: every memoized node is mapped
  to itself and holds no marker.
\<close>

definition untouched_memo :: "traversal \<Rightarrow> bool" where
  "untouched_memo st =
     (\<forall>(k, v) \<in> set (memo st). v = k \<and> \<not> has_exact_type_CoefficientDerivative k)"

section \<open>Arguments (argument.py)\<close>

text \<open>
  What a caller may pass as \<open>element\<close>: an instance of \<open>FiniteElementBase\<close>, or anything
  else. Elements are compared with the equality of their type.
\<close>

datatype 'e object = FiniteElementBase 'e | NotFiniteElementBase

text \<open>
  The slots \<open>_element\<close> and \<open>_count\<close> of an Argument. The slot \<open>_repr\<close> caches the string
  \<open>"Argument(%r, %r)" % (self._element, self._count)\<close>, a function of the other two that
  \<open>__eq__\<close> does not read.
\<close>

record 'e Argument =
  arg_element :: 'e
  arg_count :: int

text \<open>
  Modelled from the spec: \<open>Counted.__init__(self, count, Argument)\<close> of common.py, which
  is not among the files (design section 9: a process-wide monotonic counter numbers the
  arguments). A count that is given is kept; without one the counter's value is taken.
  The counter, \<open>Argument._globalcount\<close>, is passed in and returned; it never decreases
  and is raised past a count that reaches it.
\<close>

definition Counted_init :: "int option \<Rightarrow> int \<Rightarrow> int \<times> int" where
  "Counted_init count globalcount =
     (let c = (case count of None \<Rightarrow> globalcount | Some c \<Rightarrow> c)
      in (c, if globalcount \<le> c then c + 1 else globalcount))"

text \<open>
  \<open>Argument.__init__\<close>: the counter is updated before the element is checked, so it keeps
  its new value when the assertion fails.
\<close>

definition Argument_init ::
  "'e object \<Rightarrow> int option \<Rightarrow> int \<Rightarrow> (error + 'e Argument) \<times> int" where
  "Argument_init element count globalcount =
     (case Counted_init count globalcount of
        (c, globalcount') \<Rightarrow>
          (case element of
             NotFiniteElementBase \<Rightarrow> (Inl ExpectingElement, globalcount')
           | FiniteElementBase e \<Rightarrow>
               (Inr \<lparr>arg_element = e, arg_count = c\<rparr>, globalcount')))"

text \<open>\<open>Argument.__eq__\<close>, for \<open>other\<close> an Argument.\<close>

definition Argument_eq :: "'e Argument \<Rightarrow> 'e Argument \<Rightarrow> bool" where
  "Argument_eq self other \<longleftrightarrow>
     arg_element self = arg_element other \<and> arg_count self = arg_count other"

definition TestFunction :: "'e object \<Rightarrow> int \<Rightarrow> (error + 'e Argument) \<times> int" where
  "TestFunction element globalcount = Argument_init element (Some (- 2)) globalcount"

definition TrialFunction :: "'e object \<Rightarrow> int \<Rightarrow> (error + 'e Argument) \<times> int" where
  "TrialFunction element globalcount = Argument_init element (Some (- 1)) globalcount"

section \<open>Properties of the differentiation operators\<close>

lemma spatially_constant_is_Terminal:
  "c \<in> set spatially_constant_types \<Longrightarrow> is_Terminal c"
  by (auto simp: spatially_constant_types_def)

lemma self_paired_length:
  assumes "\<forall>i \<in> set xs. count_list xs i = 2"
  shows "length xs = 2 * card (set xs)"
proof -
  have "length xs = sum (count_list xs) (set xs)"
    by (simp add: sum_count_set)
  also have "\<dots> = sum (\<lambda>i. 2) (set xs)"
    using assms by (intro sum.cong) auto
  also have "\<dots> = 2 * card (set xs)"
    by simp
  finally show ?thesis .
qed

text \<open>
  Claim C1. The claim: \<open>VariableDerivative(f, v)\<close> fails whenever an index is free in
  both \<open>f\<close> and \<open>v\<close>. The assertion of \<open>__init__\<close> tests the symmetric difference of
  the two sets, not their intersection, so it passes exactly when the two sets are equal.
  Here \<open>f\<close> is an indexed expression with the free index \<open>i\<close> and \<open>v\<close> a Variable with
  the same free index \<open>i\<close>: the node is built, and \<open>i\<close> is listed twice among its free
  indices.
\<close>

theorem VariableDerivative_shared_index_accepted:
  "VariableDerivative
     \<lparr>cls = Indexed_cls, shape = [], free_indices = [Index 0],
      index_dimensions = [Index 0 \<mapsto> 3], domain = None,
      expression_cls = Some Coefficient_cls\<rparr>
     \<lparr>cls = Variable_cls, shape = [], free_indices = [Index 0],
      index_dimensions = [Index 0 \<mapsto> 3], domain = None, expression_cls = None\<rparr>
   = Inr (VariableDerivativeNode
       \<lparr>vd_f = \<lparr>cls = Indexed_cls, shape = [], free_indices = [Index 0],
                index_dimensions = [Index 0 \<mapsto> 3], domain = None,
                expression_cls = Some Coefficient_cls\<rparr>,
        vd_v = \<lparr>cls = Variable_cls, shape = [], free_indices = [Index 0],
                index_dimensions = [Index 0 \<mapsto> 3], domain = None, expression_cls = None\<rparr>,
        vd_free_indices = [Index 0, Index 0],
        vd_index_dimensions = [Index 0 \<mapsto> 3],
        vd_shape = []\<rparr>)"
  by (simp add: VariableDerivative_def VariableDerivative_new_def VariableDerivative_init_def
      construct_def symmetric_difference_def Let_def)

text \<open>
  The same assertion rejects operands whose free-index sets are disjoint but not both
  empty: \<open>f\<close> with the free index \<open>i\<close> and a Variable \<open>v\<close> without free indices.
\<close>

lemma VariableDerivative_disjoint_rejected:
  "VariableDerivative
     \<lparr>cls = Indexed_cls, shape = [], free_indices = [Index 0],
      index_dimensions = [Index 0 \<mapsto> 3], domain = None,
      expression_cls = Some Coefficient_cls\<rparr>
     \<lparr>cls = Variable_cls, shape = [], free_indices = [],
      index_dimensions = Map.empty, domain = None, expression_cls = None\<rparr>
   = Inl RepeatedIndexError"
  by (simp add: VariableDerivative_def VariableDerivative_new_def VariableDerivative_init_def
      construct_def symmetric_difference_def Let_def)

text \<open>
  Claim C2. The claim: \<open>SpatialDerivative(expr, indices)\<close> fails when an Index occurs
  three or more times in \<open>indices\<close>, also for a spatially constant terminal. The
  pre-check of \<open>__new__\<close> compares the number of Index entries with twice the number of
  distinct ones; the tuple \<open>(i, i, i, j)\<close> has four entries and two distinct ones, so on
  \<open>Zero(())\<close> the call returns \<open>Zero(())\<close> and \<open>__init__\<close>, which would reject the
  tuple, never runs.
\<close>

theorem SpatialDerivative_triple_index_accepted:
  "SpatialDerivative domain2dim
     \<lparr>cls = Zero_cls, shape = [], free_indices = [], index_dimensions = Map.empty,
      domain = None, expression_cls = None\<rparr>
     [Index 0, Index 0, Index 0, Index 1] = Inr (Zero [])"
  by (simp add: SpatialDerivative_def SpatialDerivative_new_def construct_def
      spatially_constant_types_def List.card_set)

text \<open>
  Without the short-circuit the tuple is rejected: \<open>(i, i, i)\<close> has three entries and one
  distinct, the call reaches \<open>__init__\<close> and \<open>extract_indices\<close> fails.
\<close>

lemma SpatialDerivative_triple_index_rejected:
  "SpatialDerivative domain2dim
     \<lparr>cls = Zero_cls, shape = [], free_indices = [], index_dimensions = Map.empty,
      domain = None, expression_cls = None\<rparr>
     [Index 0, Index 0, Index 0] = Inl IndexArityError"
  by (simp add: SpatialDerivative_def SpatialDerivative_new_def SpatialDerivative_init_def
      construct_def spatially_constant_types_def List.card_set extract_indices_def)

text \<open>
  Claim C3, as stated, fails: \<open>Div\<close> of a scalar (rank 0) \<open>Constant\<close> raises nothing.
  The pre-check of \<open>__new__\<close> returns \<open>Zero(f.shape()[1:])\<close>, here \<open>Zero(())\<close>, before
  \<open>__init__\<close> could test the rank.
\<close>

theorem Div_scalar_constant_is_zero:
  "rank \<lparr>cls = Constant_cls, shape = [], free_indices = [], index_dimensions = Map.empty,
      domain = Some ''triangle'', expression_cls = None\<rparr> = 0
   \<and> Div \<lparr>cls = Constant_cls, shape = [], free_indices = [], index_dimensions = Map.empty,
      domain = Some ''triangle'', expression_cls = None\<rparr> = Inr (Zero [])"
  by (simp add: Div_def Div_new_def construct_def spatially_constant_types_def rank_def)

text \<open>
  Claim C3, amended: for every \<open>f\<close> of rank 0 that is not spatially constant, \<open>Div(f)\<close>
  fails with the rank error; for every spatially constant \<open>f\<close>, of any rank, \<open>Div(f)\<close>
  returns \<open>Zero\<close> of shape \<open>f.shape()[1:]\<close>.
\<close>

theorem Div_rank_and_constants:
  "(cls f \<notin> set spatially_constant_types \<and> rank f = 0 \<longrightarrow> Div f = Inl RankError)
   \<and> (cls f \<in> set spatially_constant_types \<longrightarrow> Div f = Inr (Zero (drop 1 (shape f))))"
  by (simp add: Div_def Div_new_def Div_init_def construct_def)

theorem Div_rank_and_constants_witness:
  "Div \<lparr>cls = Coefficient_cls, shape = [], free_indices = [], index_dimensions = Map.empty,
      domain = Some ''triangle'', expression_cls = None\<rparr> = Inl RankError
   \<and> Div \<lparr>cls = VectorConstant_cls, shape = [3], free_indices = [],
      index_dimensions = Map.empty, domain = Some ''triangle'', expression_cls = None\<rparr>
     = Inr (Zero [])"
  using Div_rank_and_constants [of
      "\<lparr>cls = Coefficient_cls, shape = [], free_indices = [], index_dimensions = Map.empty,
        domain = Some ''triangle'', expression_cls = None\<rparr>"]
    Div_rank_and_constants [of
      "\<lparr>cls = VectorConstant_cls, shape = [3], free_indices = [],
        index_dimensions = Map.empty, domain = Some ''triangle'', expression_cls = None\<rparr>"]
  by (simp add: spatially_constant_types_def rank_def)

text \<open>
  Claim C4, as stated, fails: \<open>Curl\<close> and \<open>Rot\<close> test the rank of \<open>f\<close>, not its shape
  against \<open>(dim,)\<close>. A coefficient of shape \<open>(5,)\<close> on a tetrahedron (dimension 3) is
  accepted by both.
\<close>

theorem Curl_shape_not_checked_against_dim:
  "shape \<lparr>cls = Coefficient_cls, shape = [5], free_indices = [], index_dimensions = Map.empty,
      domain = Some ''tetrahedron'', expression_cls = None\<rparr> \<noteq> [3]
   \<and> Curl [''tetrahedron'' \<mapsto> 3]
     \<lparr>cls = Coefficient_cls, shape = [5], free_indices = [], index_dimensions = Map.empty,
      domain = Some ''tetrahedron'', expression_cls = None\<rparr>
     = Inr (CurlNode \<lparr>cls = Coefficient_cls, shape = [5], free_indices = [],
         index_dimensions = Map.empty, domain = Some ''tetrahedron'', expression_cls = None\<rparr> 3)
   \<and> Rot \<lparr>cls = Coefficient_cls, shape = [5], free_indices = [], index_dimensions = Map.empty,
      domain = Some ''tetrahedron'', expression_cls = None\<rparr>
     = Inr (RotNode \<lparr>cls = Coefficient_cls, shape = [5], free_indices = [],
         index_dimensions = Map.empty, domain = Some ''tetrahedron'', expression_cls = None\<rparr>)"
  by (simp add: Curl_def Rot_def Curl_init_def Rot_init_def construct_def rank_def)

text \<open>
  Claim C4, amended: for every \<open>f\<close> whose rank is not exactly 1, \<open>Curl(f)\<close> and
  \<open>Rot(f)\<close> fail with the rank error; when construction succeeds the result is a Curl
  node of shape \<open>(dim,)\<close>, with \<open>dim\<close> resolved from the domain of \<open>f\<close>, respectively
  a Rot node of empty shape: never a literal zero, whatever the class of \<open>f\<close>.
\<close>

theorem Curl_Rot_rank:
  "(rank f \<noteq> 1 \<longrightarrow> Curl domain2dim f = Inl RankError \<and> Rot f = Inl RankError)
   \<and> (\<forall>n. Curl domain2dim f = Inr n \<longrightarrow>
         (\<exists>d dim. domain f = Some d \<and> domain2dim d = Some dim
            \<and> n = CurlNode f dim \<and> node_shape n = [dim]))
   \<and> (\<forall>n. Rot f = Inr n \<longrightarrow> n = RotNode f \<and> node_shape n = [])"
  by (auto simp: Curl_def Rot_def Curl_init_def Rot_init_def construct_def
      split: if_splits option.splits)

theorem Curl_Rot_rank_witness:
  "Curl [''tetrahedron'' \<mapsto> 3]
     \<lparr>cls = Constant_cls, shape = [], free_indices = [], index_dimensions = Map.empty,
      domain = Some ''tetrahedron'', expression_cls = None\<rparr> = Inl RankError
   \<and> Rot \<lparr>cls = Constant_cls, shape = [], free_indices = [], index_dimensions = Map.empty,
      domain = Some ''tetrahedron'', expression_cls = None\<rparr> = Inl RankError
   \<and> Curl [''tetrahedron'' \<mapsto> 3]
       \<lparr>cls = VectorConstant_cls, shape = [3], free_indices = [],
        index_dimensions = Map.empty, domain = Some ''tetrahedron'', expression_cls = None\<rparr>
     = Inr (CurlNode
         \<lparr>cls = VectorConstant_cls, shape = [3], free_indices = [],
          index_dimensions = Map.empty, domain = Some ''tetrahedron'',
          expression_cls = None\<rparr> 3)
   \<and> Rot \<lparr>cls = VectorConstant_cls, shape = [3], free_indices = [],
        index_dimensions = Map.empty, domain = Some ''tetrahedron'', expression_cls = None\<rparr>
     = Inr (RotNode
         \<lparr>cls = VectorConstant_cls, shape = [3], free_indices = [],
          index_dimensions = Map.empty, domain = Some ''tetrahedron'',
          expression_cls = None\<rparr>)"
proof -
  let ?c = "\<lparr>cls = Constant_cls, shape = [], free_indices = [], index_dimensions = Map.empty,
      domain = Some ''tetrahedron'', expression_cls = None\<rparr>"
  let ?v = "\<lparr>cls = VectorConstant_cls, shape = [3], free_indices = [],
      index_dimensions = Map.empty, domain = Some ''tetrahedron'', expression_cls = None\<rparr>"
  let ?t = "[''tetrahedron'' \<mapsto> (3::nat)]"
  have r: "rank ?c \<noteq> 1"
    by (simp add: rank_def)
  obtain n where n: "Curl ?t ?v = Inr n"
    by (simp add: Curl_def Curl_init_def construct_def rank_def)
  obtain m where m: "Rot ?v = Inr m"
    by (simp add: Rot_def Rot_init_def construct_def rank_def)
  from Curl_Rot_rank [of ?c ?t] r
  have "Curl ?t ?c = Inl RankError \<and> Rot ?c = Inl RankError"
    by blast
  moreover from Curl_Rot_rank [of ?v ?t] n have "n = CurlNode ?v 3"
    by auto
  moreover from Curl_Rot_rank [of ?v ?t] m have "m = RotNode ?v"
    by blast
  ultimately show ?thesis
    using n m by simp
qed

text \<open>
  Claim C5. For every spatially constant terminal (every class of
  \<open>spatially_constant_types\<close> is a terminal class; an ordinary Coefficient is not among
  them) and every index tuple in which each occurring Index occurs exactly twice, fixed
  integers ignored, \<open>SpatialDerivative(expr, indices)\<close> returns \<open>Zero\<close> of the shape
  of \<open>expr\<close>. For an ordinary Coefficient (a terminal, so without free indices of its
  own) whose domain resolves to the dimension \<open>dim\<close>, and the single index \<open>(i,)\<close>, it
  returns a SpatialDerivative node, not a zero, in which \<open>i\<close> is free and bound to \<open>dim\<close>.
\<close>

theorem SpatialDerivative_constant_zero:
  "(cls expression \<in> set spatially_constant_types
      \<and> (\<forall>i \<in> set (filter is_Index indices). count_list (filter is_Index indices) i = 2)
    \<longrightarrow> is_Terminal (cls expression)
      \<and> SpatialDerivative domain2dim expression indices = Inr (Zero (shape expression)))
   \<and> (cls f = Coefficient_cls \<and> free_indices f = [] \<and> domain f = Some d \<and> domain2dim d = Some dim
    \<longrightarrow> cls f \<notin> set spatially_constant_types
      \<and> (\<exists>n. SpatialDerivative domain2dim f [Index i] = Inr (SpatialDerivativeNode n)
           \<and> Index i \<in> set (sd_free_indices n)
           \<and> sd_index_dimensions n (Index i) = Some dim
           \<and> node_free_indices (SpatialDerivativeNode n) = [Index i]
           \<and> node_index_dimensions (SpatialDerivativeNode n) (Index i) = Some dim))"
proof (intro conjI impI)
  assume h: "cls expression \<in> set spatially_constant_types
      \<and> (\<forall>i \<in> set (filter is_Index indices). count_list (filter is_Index indices) i = 2)"
  then show t: "is_Terminal (cls expression)"
    by (simp add: spatially_constant_is_Terminal)
  from h have "length (filter is_Index indices) = 2 * card (set (filter is_Index indices))"
    by (intro self_paired_length) simp
  with t show "SpatialDerivative domain2dim expression indices = Inr (Zero (shape expression))"
    using h by (simp add: SpatialDerivative_def SpatialDerivative_new_def construct_def)
next
  assume h: "cls f = Coefficient_cls \<and> free_indices f = [] \<and> domain f = Some d
      \<and> domain2dim d = Some dim"
  then show "cls f \<notin> set spatially_constant_types"
    by (simp add: spatially_constant_types_def)
  have new: "SpatialDerivative_new f [Index i] = Inr None"
    using h by (simp add: SpatialDerivative_new_def)
  show "\<exists>n. SpatialDerivative domain2dim f [Index i] = Inr (SpatialDerivativeNode n)
           \<and> Index i \<in> set (sd_free_indices n)
           \<and> sd_index_dimensions n (Index i) = Some dim
           \<and> node_free_indices (SpatialDerivativeNode n) = [Index i]
           \<and> node_index_dimensions (SpatialDerivativeNode n) (Index i) = Some dim"
    using h new
    by (simp add: SpatialDerivative_def SpatialDerivative_init_def construct_def
        extract_indices_def)
qed

theorem SpatialDerivative_constant_zero_witness:
  "SpatialDerivative [''triangle'' \<mapsto> 2]
     \<lparr>cls = Zero_cls, shape = [], free_indices = [], index_dimensions = Map.empty,
      domain = None, expression_cls = None\<rparr>
     [Index 0, Index 0] = Inr (Zero [])
   \<and> (\<exists>n. SpatialDerivative [''triangle'' \<mapsto> 2]
          \<lparr>cls = Coefficient_cls, shape = [], free_indices = [], index_dimensions = Map.empty,
           domain = Some ''triangle'', expression_cls = None\<rparr>
          [Index 0] = Inr (SpatialDerivativeNode n)
        \<and> Index 0 \<in> set (sd_free_indices n)
        \<and> sd_index_dimensions n (Index 0) = Some 2)"
  using SpatialDerivative_constant_zero [of
      "\<lparr>cls = Zero_cls, shape = [], free_indices = [], index_dimensions = Map.empty,
        domain = None, expression_cls = None\<rparr>"
      "[Index 0, Index 0]" "[''triangle'' \<mapsto> 2]"
      "\<lparr>cls = Coefficient_cls, shape = [], free_indices = [], index_dimensions = Map.empty,
        domain = Some ''triangle'', expression_cls = None\<rparr>" "''triangle''" 2 0]
  by (auto simp: spatially_constant_types_def)

text \<open>
  Claim C6. For every \<open>f\<close> whose domain resolves to the spatial dimension \<open>dim\<close>: if
  \<open>f\<close> is spatially constant, \<open>Grad(f)\<close> returns \<open>Zero\<close> of shape
  \<open>(dim,) + f.shape()\<close>; otherwise, if \<open>f\<close> has no free indices, \<open>Grad(f)\<close> is a Grad
  node of shape \<open>(dim,) + f.shape()\<close>, and if \<open>f\<close> has free indices the construction
  fails. The witness holds the two instances of the claim: a Constant on a
  two-dimensional cell, and a Coefficient whose \<open>shape()\<close> is the value shape of its
  element.
\<close>

theorem Grad_cases:
  assumes "domain f = Some d" and "domain2dim d = Some dim"
  shows "(cls f \<in> set spatially_constant_types
            \<longrightarrow> Grad domain2dim f = Inr (Zero (dim # shape f)))
       \<and> (cls f \<notin> set spatially_constant_types \<and> free_indices f = []
            \<longrightarrow> Grad domain2dim f = Inr (GradNode f dim)
              \<and> node_shape (GradNode f dim) = dim # shape f)
       \<and> (cls f \<notin> set spatially_constant_types \<and> free_indices f \<noteq> []
            \<longrightarrow> Grad domain2dim f = Inl FreeIndexError)"
  using assms by (simp add: Grad_def Grad_new_def Grad_init_def construct_def)

theorem Grad_cases_witness:
  "Grad [''triangle'' \<mapsto> 2]
     \<lparr>cls = Constant_cls, shape = [], free_indices = [], index_dimensions = Map.empty,
      domain = Some ''triangle'', expression_cls = None\<rparr> = Inr (Zero [2])
   \<and> Grad [''triangle'' \<mapsto> 2]
     \<lparr>cls = Coefficient_cls, shape = [2, 2], free_indices = [], index_dimensions = Map.empty,
      domain = Some ''triangle'', expression_cls = None\<rparr>
     = Inr (GradNode \<lparr>cls = Coefficient_cls, shape = [2, 2], free_indices = [],
         index_dimensions = Map.empty, domain = Some ''triangle'', expression_cls = None\<rparr> 2)
   \<and> node_shape (GradNode \<lparr>cls = Coefficient_cls, shape = [2, 2], free_indices = [],
         index_dimensions = Map.empty, domain = Some ''triangle'', expression_cls = None\<rparr> 2)
     = [2, 2, 2]
   \<and> Grad [''triangle'' \<mapsto> 2]
     \<lparr>cls = Indexed_cls, shape = [], free_indices = [Index 0],
      index_dimensions = [Index 0 \<mapsto> 2], domain = Some ''triangle'',
      expression_cls = Some Coefficient_cls\<rparr> = Inl FreeIndexError"
  using Grad_cases [of
      "\<lparr>cls = Constant_cls, shape = [], free_indices = [], index_dimensions = Map.empty,
        domain = Some ''triangle'', expression_cls = None\<rparr>"
      "''triangle''" "[''triangle'' \<mapsto> 2]" 2]
    Grad_cases [of
      "\<lparr>cls = Coefficient_cls, shape = [2, 2], free_indices = [],
        index_dimensions = Map.empty, domain = Some ''triangle'', expression_cls = None\<rparr>"
      "''triangle''" "[''triangle'' \<mapsto> 2]" 2]
    Grad_cases [of
      "\<lparr>cls = Indexed_cls, shape = [], free_indices = [Index 0],
        index_dimensions = [Index 0 \<mapsto> 2], domain = Some ''triangle'',
        expression_cls = Some Coefficient_cls\<rparr>"
      "''triangle''" "[''triangle'' \<mapsto> 2]" 2]
  by (simp add: spatially_constant_types_def)

text \<open>
  Claim C7. For every terminal \<open>f\<close> that is not a Variable and every \<open>v\<close> such that
  the symmetric difference of the free-index sets of \<open>f\<close> and \<open>v\<close> is empty,
  \<open>VariableDerivative(f, v)\<close> returns \<open>Zero\<close> of the shape of \<open>f\<close>; no derivative
  node is built.
\<close>

theorem VariableDerivative_terminal_zero:
  assumes "is_Terminal (cls f)" and "cls f \<noteq> Variable_cls"
    and "symmetric_difference (set (free_indices f)) (set (free_indices v)) = {}"
  shows "VariableDerivative f v = Inr (Zero (shape f))"
  using assms by (simp add: VariableDerivative_def VariableDerivative_new_def construct_def)

theorem VariableDerivative_terminal_zero_witness:
  "VariableDerivative
     \<lparr>cls = Coefficient_cls, shape = [3], free_indices = [], index_dimensions = Map.empty,
      domain = Some ''triangle'', expression_cls = None\<rparr>
     \<lparr>cls = Variable_cls, shape = [], free_indices = [], index_dimensions = Map.empty,
      domain = Some ''triangle'', expression_cls = None\<rparr>
   = Inr (Zero [3])"
  using VariableDerivative_terminal_zero [of
      "\<lparr>cls = Coefficient_cls, shape = [3], free_indices = [], index_dimensions = Map.empty,
        domain = Some ''triangle'', expression_cls = None\<rparr>"
      "\<lparr>cls = Variable_cls, shape = [], free_indices = [], index_dimensions = Map.empty,
        domain = Some ''triangle'', expression_cls = None\<rparr>"]
  by (simp add: symmetric_difference_def)

section \<open>Properties of replace\<close>

lemma untouched_memo_lookup:
  "untouched_memo st \<Longrightarrow> map_of (memo st) e = Some v
     \<Longrightarrow> v = e \<and> \<not> has_exact_type_CoefficientDerivative e"
  by (auto simp: untouched_memo_def dest!: map_of_SomeD)

lemma untouched_memo_handled:
  "untouched_memo st \<Longrightarrow> \<not> has_exact_type_CoefficientDerivative e
     \<Longrightarrow> untouched_memo (snd (handled e (Inr e) st))"
  by (simp add: untouched_memo_def handled_def)

lemma empty_mapping_traversal:
  assumes "terminal f = Replacer_terminal []"
    and "coefficient_derivative f = Replacer_coefficient_derivative"
    and "expr f = reuse_if_untouched reconstruct"
  shows "untouched_memo st \<Longrightarrow>
           (\<forall>r st'. map_expr_dag f e st = (Inr r, st')
              \<longrightarrow> r = e \<and> \<not> has_exact_type_CoefficientDerivative e \<and> untouched_memo st')
         \<and> (\<not> has_exact_type_CoefficientDerivative e
              \<longrightarrow> (\<exists>st'. map_expr_dag f e st = (Inr e, st')))"
    and "untouched_memo st \<Longrightarrow>
           (\<forall>rs st'. map_operands f xs st = (Inr rs, st')
              \<longrightarrow> rs = xs \<and> \<not> list_ex has_exact_type_CoefficientDerivative xs
                \<and> untouched_memo st')
         \<and> (\<not> list_ex has_exact_type_CoefficientDerivative xs
              \<longrightarrow> (\<exists>st'. map_operands f xs st = (Inr xs, st')))"
  using assms
proof (induction f e st and f xs st rule: map_expr_dag_map_operands.induct)
  case (1 f r s st)
  then show ?case
    by (auto simp: Replacer_terminal_def handled_def untouched_memo_def
        split: option.splits dest!: map_of_SomeD)
next
  case (2 f s ops st)
  have "map_of (memo st) (CoefficientDerivative s ops) = None"
  proof (cases "map_of (memo st) (CoefficientDerivative s ops)")
    case None
    then show ?thesis .
  next
    case (Some v)
    with 2(1) show ?thesis
      by (auto dest: untouched_memo_lookup)
  qed
  with 2 show ?case
    by (simp add: Replacer_coefficient_derivative_def handled_def)
next
  case (3 f c s ops st)
  show ?case
  proof (cases "map_of (memo st) (Operator c s ops)")
    case (Some v)
    with 3(2) show ?thesis
      by (auto dest: untouched_memo_lookup)
  next
    case None
    note ih = 3(1)[OF None 3(2) 3(3) 3(4) 3(5)]
    show ?thesis
    proof (cases "map_operands f ops st")
      case (Pair res st1)
      show ?thesis
      proof (cases res)
        case (Inl err)
        with Pair None ih show ?thesis
          by auto
      next
        case (Inr rs)
        with Pair ih have rs: "rs = ops" and nm: "\<not> list_ex has_exact_type_CoefficientDerivative ops"
          and um: "untouched_memo st1"
          by auto
        from untouched_memo_handled[OF um, of "Operator c s ops"] nm
        have "untouched_memo (snd (handled (Operator c s ops) (Inr (Operator c s ops)) st1))"
          by simp
        with Pair Inr None rs nm 3(5) show ?thesis
          by (auto simp: reuse_if_untouched_def handled_def)
      qed
    qed
  qed
next
  case (4 f st)
  then show ?case by simp
next
  case (5 f x xs st)
  note ihx = 5(1)[OF 5(3) 5(4) 5(5) 5(6)]
  show ?case
  proof (cases "map_expr_dag f x st")
    case (Pair res st1)
    show ?thesis
    proof (cases res)
      case (Inl err)
      with Pair ihx show ?thesis by auto
    next
      case (Inr r)
      with Pair ihx have r: "r = x" and nx: "\<not> has_exact_type_CoefficientDerivative x"
        and um: "untouched_memo st1"
        by auto
      note ihxs = 5(2)[OF Pair[symmetric] Inr um 5(4) 5(5) 5(6)]
      show ?thesis
      proof (cases "map_operands f xs st1")
        case p2: (Pair res2 st2)
        show ?thesis
        proof (cases res2)
          case (Inl err)
          with p2 Pair Inr ihxs show ?thesis by auto
        next
          case i2: (Inr rs)
          with p2 Pair Inr ihxs r nx show ?thesis by auto
        qed
      qed
    qed
  qed
qed


lemma mapping2_as_ufl: "map (\<lambda>(k, v). (k, as_ufl v)) mapping = mapping"
  by (induction mapping) (auto simp: as_ufl_def)

lemma Replacer_empty:
  "Replacer reconstruct [] =
     Inr \<lparr>terminal = Replacer_terminal [],
          coefficient_derivative = Replacer_coefficient_derivative,
          expr = reuse_if_untouched reconstruct\<rparr>"
  by (simp add: Replacer_def)

lemma untouched_memo_initial: "untouched_memo \<lparr>memo = [], visited = []\<rparr>"
  by (simp add: untouched_memo_def)

lemma replace_empty_without_marker:
  assumes "\<not> has_exact_type_CoefficientDerivative e"
  shows "fst (replace expand_derivatives reconstruct e []) = Inr e"
proof -
  let ?f = "\<lparr>terminal = Replacer_terminal [],
          coefficient_derivative = Replacer_coefficient_derivative,
          expr = reuse_if_untouched reconstruct\<rparr>"
  from empty_mapping_traversal(1)[of ?f reconstruct "\<lparr>memo = [], visited = []\<rparr>" e] assms
  obtain st' where "map_expr_dag ?f e \<lparr>memo = [], visited = []\<rparr> = (Inr e, st')"
    using untouched_memo_initial by auto
  with assms show ?thesis
    by (simp add: replace_def Replacer_empty map_integrand_dags_def)
qed

lemma replace_empty_result_without_marker:
  assumes "fst (replace expand_derivatives reconstruct e []) = Inr r"
  shows "\<not> has_exact_type_CoefficientDerivative r"
proof -
  let ?f = "\<lparr>terminal = Replacer_terminal [],
          coefficient_derivative = Replacer_coefficient_derivative,
          expr = reuse_if_untouched reconstruct\<rparr>"
  let ?st = "\<lparr>memo = [], visited = []\<rparr>"
  obtain e' where e': "(if has_exact_type_CoefficientDerivative e then expand_derivatives e
      else Inr e) = Inr e'"
    using assms by (cases "if has_exact_type_CoefficientDerivative e then expand_derivatives e
      else Inr e") (auto simp: replace_def)
  obtain res st' where run: "map_expr_dag ?f e' ?st = (res, st')"
    by (cases "map_expr_dag ?f e' ?st")
  with assms e' have "res = Inr r"
    by (simp add: replace_def Replacer_empty map_integrand_dags_def)
  with run empty_mapping_traversal(1)[of ?f reconstruct ?st e'] untouched_memo_initial
  show ?thesis
    by auto
qed

lemma replace_empty_with_marker:
  assumes "has_exact_type_CoefficientDerivative e"
  shows "fst (replace expand_derivatives reconstruct e []) \<noteq> Inr e"
  using assms replace_empty_result_without_marker by blast

text \<open>
  Claim C8, amended: for every terminal \<open>t\<close> and value \<open>v\<close> with the shape of \<open>t\<close>,
  \<open>replace(t, {t: v})\<close> is \<open>v\<close>; and for every expression \<open>e\<close> that contains no
  coefficient-derivative marker, \<open>replace(e, {})\<close> is \<open>e\<close>. Both hold whatever the
  collaborators \<open>expand_derivatives\<close> and \<open>reconstruct\<close> do, since neither is reached.
\<close>

theorem replace_identity_laws:
  "(ufl_is_terminal t \<and> ufl_shape t = ufl_shape v
      \<longrightarrow> fst (replace expand_derivatives reconstruct t [(t, v)]) = Inr v)
   \<and> (\<not> has_exact_type_CoefficientDerivative e
      \<longrightarrow> fst (replace expand_derivatives reconstruct e []) = Inr e)"
proof (intro conjI impI)
  assume h: "ufl_is_terminal t \<and> ufl_shape t = ufl_shape v"
  then obtain r s where t: "t = Terminal r s"
    by (cases t) auto
  with h show "fst (replace expand_derivatives reconstruct t [(t, v)]) = Inr v"
    by (simp add: replace_def Replacer_def map_integrand_dags_def as_ufl_def
        Replacer_terminal_def handled_def)
next
  assume "\<not> has_exact_type_CoefficientDerivative e"
  then show "fst (replace expand_derivatives reconstruct e []) = Inr e"
    by (rule replace_empty_without_marker)
qed

theorem replace_identity_laws_witness:
  "fst (replace (\<lambda>e. Inl CollaboratorError) (\<lambda>e ops. Inl CollaboratorError)
         (Terminal ''w_0'' [3]) [(Terminal ''w_0'' [3], Operator ''Sum'' [3] [Terminal ''w_1'' [3], Terminal ''w_2'' [3]])])
     = Inr (Operator ''Sum'' [3] [Terminal ''w_1'' [3], Terminal ''w_2'' [3]])
   \<and> fst (replace (\<lambda>e. Inl CollaboratorError) (\<lambda>e ops. Inl CollaboratorError)
         (Operator ''Sum'' [3] [Terminal ''w_1'' [3], Terminal ''w_1'' [3]]) [])
     = Inr (Operator ''Sum'' [3] [Terminal ''w_1'' [3], Terminal ''w_1'' [3]])"
  using replace_identity_laws [where
      t = "Terminal ''w_0'' [3]"
      and v = "Operator ''Sum'' [3] [Terminal ''w_1'' [3], Terminal ''w_2'' [3]]"
      and e = "Operator ''Sum'' [3] [Terminal ''w_1'' [3], Terminal ''w_1'' [3]]"
      and expand_derivatives = "\<lambda>e. Inl CollaboratorError"
      and reconstruct = "\<lambda>e ops. Inl CollaboratorError"]
  by simp

text \<open>
  Claim C8, as stated, fails on an expression that holds a marker: \<open>replace\<close> first hands
  it to \<open>expand_derivatives\<close> and substitutes in what comes back. With an expansion that
  answers \<open>v_1\<close> for the marker below, \<open>replace(e, {})\<close> is \<open>v_1\<close>; and whatever the
  expansion and the reconstruction do, the result is never \<open>e\<close> itself (a marker left in
  place makes the Replacer fail).
\<close>

theorem replace_empty_expands_markers:
  "fst (replace (\<lambda>e. Inr (Terminal ''v_1'' [])) (\<lambda>e ops. Inl CollaboratorError)
         (CoefficientDerivative [] [Terminal ''w_0'' [], Terminal ''w_0'' [], Terminal ''v_1'' []]) [])
     = Inr (Terminal ''v_1'' [])
   \<and> (\<forall>expand_derivatives reconstruct.
        fst (replace expand_derivatives reconstruct
          (CoefficientDerivative [] [Terminal ''w_0'' [], Terminal ''w_0'' [], Terminal ''v_1'' []]) [])
        \<noteq> Inr (CoefficientDerivative [] [Terminal ''w_0'' [], Terminal ''w_0'' [], Terminal ''v_1'' []]))"
proof (intro conjI allI)
  show "fst (replace (\<lambda>e. Inr (Terminal ''v_1'' [])) (\<lambda>e ops. Inl CollaboratorError)
         (CoefficientDerivative [] [Terminal ''w_0'' [], Terminal ''w_0'' [], Terminal ''v_1'' []]) [])
     = Inr (Terminal ''v_1'' [])"
    by (simp add: replace_def Replacer_def map_integrand_dags_def Replacer_terminal_def
        handled_def)
next
  fix expand_derivatives reconstruct
  show "fst (replace expand_derivatives reconstruct
          (CoefficientDerivative [] [Terminal ''w_0'' [], Terminal ''w_0'' [], Terminal ''v_1'' []]) [])
        \<noteq> Inr (CoefficientDerivative [] [Terminal ''w_0'' [], Terminal ''w_0'' [], Terminal ''v_1'' []])"
    by (rule replace_empty_with_marker) simp
qed

text \<open>
  Claim C9, as stated, fails: the mapping is not validated before any node of \<open>e\<close> is
  looked at. \<open>replace\<close> first scans \<open>e\<close> for a coefficient-derivative marker and, when
  it finds one, runs \<open>expand_derivatives\<close> on \<open>e\<close>; the two checks of the mapping run
  only afterwards, when the Replacer is built. With the same mapping, whose key is an
  operator and not a terminal, the outcome therefore depends on \<open>e\<close>: on a marker whose
  expansion fails, \<open>replace\<close> ends with the error of the expansion pass and the mapping
  is never validated; on a terminal it ends with the error of the validation.
\<close>

theorem replace_expands_before_validation:
  "\<not> ufl_is_terminal (Operator ''Sum'' [] [Terminal ''w_0'' [], Terminal ''w_1'' []])
   \<and> has_exact_type_CoefficientDerivative
       (CoefficientDerivative [] [Terminal ''w_0'' [], Terminal ''w_0'' [], Terminal ''v_1'' []])
   \<and> replace (\<lambda>e. Inl CollaboratorError) (\<lambda>e ops. Inl CollaboratorError)
       (CoefficientDerivative [] [Terminal ''w_0'' [], Terminal ''w_0'' [], Terminal ''v_1'' []])
       [(Operator ''Sum'' [] [Terminal ''w_0'' [], Terminal ''w_1'' []], Terminal ''w_2'' [])]
     = (Inl CollaboratorError, [])
   \<and> replace (\<lambda>e. Inl CollaboratorError) (\<lambda>e ops. Inl CollaboratorError)
       (Terminal ''w_0'' [])
       [(Operator ''Sum'' [] [Terminal ''w_0'' [], Terminal ''w_1'' []], Terminal ''w_2'' [])]
     = (Inl UnsupportedSubstitutionTarget, [])"
  by (simp add: replace_def Replacer_def as_ufl_def)

text \<open>
  Claim C9, amended: if some key of the mapping is not a terminal, or some value's shape
  differs from its key's shape, \<open>replace(e, mapping)\<close> fails with an error and the
  substitution traversal never starts: no node is handed to a handler of the Replacer,
  so the log of visits is empty and there is no partial result. The mapping is validated
  when the Replacer is built, after \<open>e\<close> was scanned for a marker and, if it holds one,
  expanded. So the error is the one of the failed check, keys first, when \<open>e\<close> holds no
  marker or its expansion succeeds; when \<open>e\<close> holds a marker and its expansion fails,
  the error is the one of the expansion.
\<close>

theorem replace_validates_before_substitution:
  assumes "(\<exists>(k, v) \<in> set mapping. \<not> ufl_is_terminal k)
         \<or> (\<exists>(k, v) \<in> set mapping. ufl_shape k \<noteq> ufl_shape v)"
  shows "(\<exists>err. fst (replace expand_derivatives reconstruct e mapping) = Inl err)
       \<and> snd (replace expand_derivatives reconstruct e mapping) = []
       \<and> (\<not> has_exact_type_CoefficientDerivative e \<or> (\<exists>e'. expand_derivatives e = Inr e')
            \<longrightarrow> fst (replace expand_derivatives reconstruct e mapping)
                = Inl (if \<exists>(k, v) \<in> set mapping. \<not> ufl_is_terminal k
                       then UnsupportedSubstitutionTarget else ShapeMismatch))
       \<and> (\<forall>err. has_exact_type_CoefficientDerivative e \<and> expand_derivatives e = Inl err
            \<longrightarrow> fst (replace expand_derivatives reconstruct e mapping) = Inl err)"
proof -
  from assms have bad: "\<not> list_all (\<lambda>(k, v). ufl_is_terminal k) mapping
      \<or> \<not> list_all (\<lambda>(k, v). ufl_shape k = ufl_shape v) mapping"
    by (auto simp: list_all_iff)
  have keys: "(\<exists>(k, v) \<in> set mapping. \<not> ufl_is_terminal k)
      \<longleftrightarrow> \<not> list_all (\<lambda>(k, v). ufl_is_terminal k) mapping"
    by (auto simp: list_all_iff)
  from bad have R: "Replacer reconstruct mapping
      = Inl (if \<exists>(k, v) \<in> set mapping. \<not> ufl_is_terminal k
             then UnsupportedSubstitutionTarget else ShapeMismatch)"
    unfolding keys by (auto simp: Replacer_def)
  show ?thesis
    by (cases "expand_derivatives e")
      (auto simp: replace_def mapping2_as_ufl R)
qed

theorem replace_validates_before_substitution_witness:
  "replace (\<lambda>e. Inl CollaboratorError) (\<lambda>e ops. Inl CollaboratorError)
     (Operator ''Sum'' [] [Terminal ''w_0'' [], Terminal ''w_1'' []])
     [(Operator ''Sum'' [] [Terminal ''w_0'' [], Terminal ''w_1'' []], Terminal ''w_2'' [])]
     = (Inl UnsupportedSubstitutionTarget, [])
   \<and> replace (\<lambda>e. Inl CollaboratorError) (\<lambda>e ops. Inl CollaboratorError)
     (Operator ''Sum'' [] [Terminal ''w_0'' [], Terminal ''w_1'' []])
     [(Terminal ''w_0'' [], Terminal ''w_2'' [3])]
     = (Inl ShapeMismatch, [])
   \<and> replace (\<lambda>e. Inr (Terminal ''v_1'' [])) (\<lambda>e ops. Inl CollaboratorError)
     (CoefficientDerivative [] [Terminal ''w_0'' [], Terminal ''w_0'' [], Terminal ''v_1'' []])
     [(Terminal ''w_0'' [], Terminal ''w_2'' [3])]
     = (Inl ShapeMismatch, [])
   \<and> replace (\<lambda>e. Inl CollaboratorError) (\<lambda>e ops. Inl CollaboratorError)
     (CoefficientDerivative [] [Terminal ''w_0'' [], Terminal ''w_0'' [], Terminal ''v_1'' []])
     [(Terminal ''w_0'' [], Terminal ''w_2'' [3])]
     = (Inl CollaboratorError, [])"
  using replace_validates_before_substitution [where
      mapping = "[(Operator ''Sum'' [] [Terminal ''w_0'' [], Terminal ''w_1'' []], Terminal ''w_2'' [])]"
      and e = "Operator ''Sum'' [] [Terminal ''w_0'' [], Terminal ''w_1'' []]"
      and expand_derivatives = "\<lambda>e. Inl CollaboratorError"
      and reconstruct = "\<lambda>e ops. Inl CollaboratorError"]
    replace_validates_before_substitution [where
      mapping = "[(Terminal ''w_0'' [], Terminal ''w_2'' [3])]"
      and e = "Operator ''Sum'' [] [Terminal ''w_0'' [], Terminal ''w_1'' []]"
      and expand_derivatives = "\<lambda>e. Inl CollaboratorError"
      and reconstruct = "\<lambda>e ops. Inl CollaboratorError"]
    replace_validates_before_substitution [where
      mapping = "[(Terminal ''w_0'' [], Terminal ''w_2'' [3])]"
      and e = "CoefficientDerivative [] [Terminal ''w_0'' [], Terminal ''w_0'' [], Terminal ''v_1'' []]"
      and expand_derivatives = "\<lambda>e. Inr (Terminal ''v_1'' [])"
      and reconstruct = "\<lambda>e ops. Inl CollaboratorError"]
    replace_validates_before_substitution [where
      mapping = "[(Terminal ''w_0'' [], Terminal ''w_2'' [3])]"
      and e = "CoefficientDerivative [] [Terminal ''w_0'' [], Terminal ''w_0'' [], Terminal ''v_1'' []]"
      and expand_derivatives = "\<lambda>e. Inl CollaboratorError"
      and reconstruct = "\<lambda>e ops. Inl CollaboratorError"]
  by (simp add: prod_eq_iff)

section \<open>Properties of TestFunction and TrialFunction\<close>

text \<open>
  Claim C10. For every state \<open>g\<close> of the process-wide Argument counter,
  \<open>TestFunction(element)\<close> constructs the Argument of that element with count -2 and
  \<open>TrialFunction(element)\<close> the one with count -1; two Arguments are equal exactly when
  their elements and their counts are. Hence, for counter states \<open>g1\<close>, \<open>g2\<close>, \<open>g3\<close>
  of any three moments of the process, \<open>TestFunction(e1)\<close> equals \<open>TestFunction(e2)\<close>
  if and only if \<open>e1\<close> equals \<open>e2\<close>, and \<open>TestFunction(e1)\<close> never equals
  \<open>TrialFunction(e1)\<close>.
\<close>

theorem TestFunction_TrialFunction_equality:
  "fst (TestFunction (FiniteElementBase e1) g1) = Inr \<lparr>arg_element = e1, arg_count = - 2\<rparr>
   \<and> fst (TrialFunction (FiniteElementBase e1) g1) = Inr \<lparr>arg_element = e1, arg_count = - 1\<rparr>
   \<and> (Argument_eq a b \<longleftrightarrow> arg_element a = arg_element b \<and> arg_count a = arg_count b)
   \<and> (\<exists>x y z. fst (TestFunction (FiniteElementBase e1) g1) = Inr x
         \<and> fst (TestFunction (FiniteElementBase e2) g2) = Inr y
         \<and> fst (TrialFunction (FiniteElementBase e1) g3) = Inr z
         \<and> (Argument_eq x y \<longleftrightarrow> e1 = e2)
         \<and> \<not> Argument_eq x z)"
  by (simp add: TestFunction_def TrialFunction_def Argument_init_def Counted_init_def
      Argument_eq_def Let_def)

end
